theory Spec2Isabelle
  imports Main
begin

section \<open>The translation unit \<^verbatim>\<open>cmanta.cpp\<close>\<close>

text \<open>
  The whole program is one module-initialisation block:
  \<^verbatim>\<open>
  #include <memory>
  #include <pybind11/pybind11.h>
  #include <VimbaCPP/Include/VimbaCPP.h>

  PYBIND11_MODULE(cmanta, module) {
      py::class_<VimbaSystem, std::unique_ptr<VimbaSystem, py::nodelete>>(module, "VimbaSystem")
          .def("GetInstance", &VimbaSystem::GetInstance)
          .def("GetCameras", &VimbaSystem::GetCameras);
  }
  \<close>
  Running the block builds a registry: the module, the classes it registers, and for
  each class the holder type, the constructors and the methods bound to it. The
  embedding below builds that registry with one function per construct of the source
  (\<open>PYBIND11_MODULE\<close>, \<open>py::class_\<close>, \<open>.def\<close>), in the order the source applies them.

  Two things the file uses are third-party code that is not part of the repository:
  the vendor SDK (\<open>VimbaSystem\<close> and its members) and the binding framework. The SDK
  is a parameter of the model throughout. Of the framework, what a registration
  records is modelled from the source's own calls; what the holder's deleter does and
  what a call forwards are taken from the spec and marked as such.
\<close>

subsection \<open>Names of the SDK members the source takes the address of\<close>

datatype sdk_member = VimbaSystem_GetInstance | VimbaSystem_GetCameras

subsection \<open>Holder types\<close>

text \<open>
  The second template argument of \<open>py::class_\<close> is the holder: the smart pointer through
  which the calling environment owns an object of the class. The source gives
  \<open>std::unique_ptr<VimbaSystem, py::nodelete>\<close>; \<open>std::unique_ptr<T>\<close> alone has the
  deleter \<open>std::default_delete<T>\<close>.
\<close>

datatype deleter = default_delete | nodelete

datatype holder_type = unique_ptr deleter

subsection \<open>The registry\<close>

text \<open>
  \<open>.def\<close> binds a method of the class, \<open>.def_static\<close> a static one; the registry keeps
  which of the two made an entry.
\<close>

datatype def_kind = by_def | by_def_static

record method_def =
  mname :: string
  mkind :: def_kind
  mimpl :: sdk_member

text \<open>
  A constructor binding \<open>.def(py::init<T1, ..., Tn>())\<close> is recorded by the list of
  its parameter types.
\<close>

type_synonym init_def = "string list"

record bound_class =
  cname :: string
  cpp_type :: string
  holder :: holder_type
  inits :: "init_def list"
  methods :: "method_def list"
  properties :: "string list"

record module =
  modname :: string
  classes :: "bound_class list"
  free_functions :: "(string \<times> sdk_member) list"
  implicit_conversions :: "(string \<times> string) list"

text \<open>
  \<open>py::class_<T, H>(module, name)\<close> registers a class without constructors, methods or
  properties in the module at once; the value it returns refers to that class, so
  that each \<open>.def\<close> chained on it changes the class inside the module. The value is
  modelled as the module together with the name of the class being defined.
\<close>

type_synonym class_handle = "module \<times> string"

definition py_class :: "string \<Rightarrow> holder_type \<Rightarrow> module \<Rightarrow> string \<Rightarrow> class_handle" where
  "py_class T H m n =
     (m\<lparr>classes := classes m @
          [\<lparr>cname = n, cpp_type = T, holder = H, inits = [], methods = [],
            properties = []\<rparr>]\<rparr>, n)"

definition def :: "class_handle \<Rightarrow> string \<Rightarrow> sdk_member \<Rightarrow> class_handle" where
  "def h n f =
     (case h of (m, c) \<Rightarrow>
        (m\<lparr>classes :=
             map (\<lambda>k. if cname k = c
                       then k\<lparr>methods := methods k @
                                 [\<lparr>mname = n, mkind = by_def, mimpl = f\<rparr>]\<rparr>
                       else k) (classes m)\<rparr>, c))"

definition PYBIND11_MODULE :: "string \<Rightarrow> (module \<Rightarrow> module) \<Rightarrow> module" where
  "PYBIND11_MODULE n body =
     body \<lparr>modname = n, classes = [], free_functions = [], implicit_conversions = []\<rparr>"

subsection \<open>The source\<close>

definition cmanta_includes :: "string list" where
  "cmanta_includes = [''memory'', ''pybind11/pybind11.h'', ''VimbaCPP/Include/VimbaCPP.h'']"

definition cmanta :: module where
  "cmanta =
     PYBIND11_MODULE ''cmanta'' (\<lambda>module.
       fst (def (def (py_class ''VimbaSystem'' (unique_ptr nodelete) module ''VimbaSystem'')
                   ''GetInstance'' VimbaSystem_GetInstance)
              ''GetCameras'' VimbaSystem_GetCameras))"

section \<open>What the calling environment sees\<close>

definition find_class :: "module \<Rightarrow> string \<Rightarrow> bound_class option" where
  "find_class m cn = find (\<lambda>c. cname c = cn) (classes m)"

definition find_method :: "bound_class \<Rightarrow> string \<Rightarrow> method_def option" where
  "find_method c mn = find (\<lambda>d. mname d = mn) (methods c)"

text \<open>The SDK member that stands behind a name of the module, if the name is bound.\<close>

definition bound :: "module \<Rightarrow> string \<Rightarrow> string \<Rightarrow> sdk_member option" where
  "bound m cn mn =
     (case find_class m cn of
        None \<Rightarrow> None
      | Some c \<Rightarrow> map_option mimpl (find_method c mn))"

text \<open>Every name the module exports, classes first, each followed by its members.\<close>

definition class_exports :: "bound_class \<Rightarrow> string list" where
  "class_exports c =
     cname c #
     map (\<lambda>i. cname c @ ''.__init__'') (inits c) @
     map (\<lambda>d. cname c @ ''.'' @ mname d) (methods c) @
     map (\<lambda>p. cname c @ ''.'' @ p) (properties c)"

definition exports :: "module \<Rightarrow> string list" where
  "exports m = map fst (free_functions m) @ concat (map class_exports (classes m))"

text \<open>A C++ type has a representation in the module when a class is registered for it.\<close>

definition registered :: "module \<Rightarrow> string \<Rightarrow> bool" where
  "registered m T = (T \<in> set (map cpp_type (classes m)))"

section \<open>Running the bound operations\<close>

subsection \<open>The vendor SDK as a parameter\<close>

text \<open>
  Nothing of the SDK is in the repository, so its behaviour is a parameter: for each
  member the source binds, any function from the arguments and the SDK's state (the
  device environment) to a value or an error and the next state; and, for a class that
  binds a constructor, any such function making an object.
\<close>

record ('a, 'e, 'v, 'p, 's) sdk =
  member :: "sdk_member \<Rightarrow> 'a list \<Rightarrow> 's \<Rightarrow> ('e + 'v) \<times> 's"
  new_object :: "string \<Rightarrow> 'a list \<Rightarrow> 's \<Rightarrow> ('e + 'p) \<times> 's"

subsection \<open>The process state\<close>

text \<open>
  The state of the SDK, and the objects on which the binding has run a destructor, in
  the order it did. The record is extensible: whatever further state a process has is
  its \<open>more\<close> part.
\<close>

record ('s, 'p) world =
  sdk_state :: 's
  destructed :: "'p list"

subsection \<open>Calling a bound method\<close>

text \<open>
  Modelled from the spec: what happens between the caller writing a call and the SDK
  member running is the binding framework's dispatcher, which is not under src/. The
  spec says of the two operations that each is "a direct, unmodified forward into the
  external SDK" and that its errors "propagate unmodified across the binding
  boundary": a name that is not bound gives \<open>None\<close>; for a bound name the registered
  SDK member runs on the arguments, and its outcome is the outcome of the call.

  This is the spec's account, not the framework's code. How the framework matches what
  the caller wrote (a receiver included) against the member's C++ signature, how it
  carries arguments and results across the language boundary, and which failures of
  its own it can raise there, depends on framework code and on the SDK's declarations;
  \<open>call\<close> has none of it. It serves below only to say that a call, whatever else it
  does, is not a release of a holder.
\<close>

definition call ::
  "('a, 'e, 'v, 'p, 's) sdk \<Rightarrow> module \<Rightarrow> string \<Rightarrow> string \<Rightarrow> 'a list \<Rightarrow>
   ('s, 'p, 'r) world_scheme \<Rightarrow> (('e + 'v) \<times> ('s, 'p, 'r) world_scheme) option" where
  "call sdk m cn mn args w =
     (case bound m cn mn of
        None \<Rightarrow> None
      | Some f \<Rightarrow>
          (case member sdk f args (sdk_state w) of
             (r, s') \<Rightarrow> Some (r, w\<lparr>sdk_state := s'\<rparr>)))"

subsection \<open>Constructing an object of a bound class\<close>

text \<open>
  An object is made by a constructor the class binds with \<open>py::init\<close>, chosen by the
  number of arguments. A class that binds none cannot be instantiated.
\<close>

datatype construct_error = No_such_class | No_constructor_defined | No_matching_constructor

definition construct ::
  "('a, 'e, 'v, 'p, 's) sdk \<Rightarrow> module \<Rightarrow> string \<Rightarrow> 'a list \<Rightarrow>
   ('s, 'p, 'r) world_scheme \<Rightarrow> (construct_error + ('e + 'p)) \<times> ('s, 'p, 'r) world_scheme" where
  "construct sdk m cn args w =
     (case find_class m cn of
        None \<Rightarrow> (Inl No_such_class, w)
      | Some c \<Rightarrow>
          if inits c = [] then (Inl No_constructor_defined, w)
          else
            (case find (\<lambda>i. length i = length args) (inits c) of
               None \<Rightarrow> (Inl No_matching_constructor, w)
             | Some i \<Rightarrow>
                 (case new_object sdk (cpp_type c) args (sdk_state w) of
                    (r, s') \<Rightarrow> (Inr r, w\<lparr>sdk_state := s'\<rparr>))))"

subsection \<open>Releasing a caller-side reference\<close>

text \<open>
  Modelled from the spec: \<open>py::nodelete\<close> is declared by the binding framework, not under
  src/. The spec says of the holder the source chooses that the binding "explicitly
  disables destruction of the singleton handle on the caller side": the deleter does
  nothing. \<open>std::default_delete\<close> runs the destructor of the object it is given.
\<close>

fun run_deleter :: "deleter \<Rightarrow> 'p \<Rightarrow> 'p list \<Rightarrow> 'p list" where
  "run_deleter default_delete p d = d @ [p]"
| "run_deleter nodelete p d = d"

text \<open>When a \<open>unique_ptr\<close> goes away it hands the object it holds to its deleter.\<close>

fun destroy_holder :: "holder_type \<Rightarrow> 'p \<Rightarrow> 'p list \<Rightarrow> 'p list" where
  "destroy_holder (unique_ptr D) p d = run_deleter D p d"

text \<open>
  When the calling environment drops its reference to an object of a bound class, the
  holder of that object goes away.
\<close>

definition release ::
  "module \<Rightarrow> string \<Rightarrow> 'p \<Rightarrow> ('s, 'p, 'r) world_scheme \<Rightarrow> ('s, 'p, 'r) world_scheme" where
  "release m cn p w =
     (case find_class m cn of
        None \<Rightarrow> w
      | Some c \<Rightarrow> w\<lparr>destructed := destroy_holder (holder c) p (destructed w)\<rparr>)"

subsection \<open>Sequences of operations\<close>

datatype ('a, 'p) operation =
  Call string string "'a list"
| Construct string "'a list"
| Release string 'p

fun step ::
  "('a, 'e, 'v, 'p, 's) sdk \<Rightarrow> module \<Rightarrow> ('a, 'p) operation \<Rightarrow>
   ('s, 'p, 'r) world_scheme \<Rightarrow> ('s, 'p, 'r) world_scheme" where
  "step sdk m (Call cn mn args) w =
     (case call sdk m cn mn args w of None \<Rightarrow> w | Some (r, w') \<Rightarrow> w')"
| "step sdk m (Construct cn args) w = snd (construct sdk m cn args w)"
| "step sdk m (Release cn p) w = release m cn p w"

fun run ::
  "('a, 'e, 'v, 'p, 's) sdk \<Rightarrow> module \<Rightarrow> ('a, 'p) operation list \<Rightarrow>
   ('s, 'p, 'r) world_scheme \<Rightarrow> ('s, 'p, 'r) world_scheme" where
  "run sdk m [] w = w"
| "run sdk m (x # xs) w = run sdk m xs (step sdk m x w)"

subsection \<open>What a bound member yields\<close>

text \<open>
  Modelled from the spec: the declarations of \<open>VimbaSystem::GetInstance\<close> and
  \<open>VimbaSystem::GetCameras\<close> are in the vendor's header, not under src/. The spec names
  them "instance retrieval and camera enumeration" of the SDK's "singleton system
  object".
\<close>

datatype yield = System_instance | Camera_enumeration

fun yields :: "sdk_member \<Rightarrow> yield" where
  "yields VimbaSystem_GetInstance = System_instance"
| "yields VimbaSystem_GetCameras = Camera_enumeration"

text \<open>The members of a class through which a caller can come by a system object.\<close>

definition instance_sources :: "bound_class \<Rightarrow> string list" where
  "instance_sources c =
     map (\<lambda>i. ''__init__'') (inits c) @
     map mname (filter (\<lambda>d. yields (mimpl d) = System_instance) (methods c))"

section \<open>The registry the source builds\<close>

lemma cmanta_unfolded:
  "cmanta =
     \<lparr>modname = ''cmanta'',
      classes =
        [\<lparr>cname = ''VimbaSystem'', cpp_type = ''VimbaSystem'', holder = unique_ptr nodelete,
          inits = [],
          methods =
            [\<lparr>mname = ''GetInstance'', mkind = by_def, mimpl = VimbaSystem_GetInstance\<rparr>,
             \<lparr>mname = ''GetCameras'', mkind = by_def, mimpl = VimbaSystem_GetCameras\<rparr>],
          properties = []\<rparr>],
      free_functions = [], implicit_conversions = []\<rparr>"
  by (simp add: cmanta_def PYBIND11_MODULE_def py_class_def def_def)

lemma find_class_cmanta:
  "find_class cmanta cn =
     (if cn = ''VimbaSystem''
      then Some
        \<lparr>cname = ''VimbaSystem'', cpp_type = ''VimbaSystem'', holder = unique_ptr nodelete,
         inits = [],
         methods =
           [\<lparr>mname = ''GetInstance'', mkind = by_def, mimpl = VimbaSystem_GetInstance\<rparr>,
            \<lparr>mname = ''GetCameras'', mkind = by_def, mimpl = VimbaSystem_GetCameras\<rparr>],
         properties = []\<rparr>
      else None)"
  by (auto simp add: find_class_def cmanta_unfolded)

lemma bound_cmanta:
  "bound cmanta cn mn =
     (if cn = ''VimbaSystem'' \<and> mn = ''GetInstance'' then Some VimbaSystem_GetInstance
      else if cn = ''VimbaSystem'' \<and> mn = ''GetCameras'' then Some VimbaSystem_GetCameras
      else None)"
  by (simp add: bound_def find_class_cmanta find_method_def)

lemma holder_cmanta: "find_class cmanta cn = Some c \<Longrightarrow> holder c = unique_ptr nodelete"
  by (auto simp add: find_class_cmanta split: if_splits)

lemma inits_cmanta: "find_class cmanta cn = Some c \<Longrightarrow> inits c = []"
  by (auto simp add: find_class_cmanta split: if_splits)

text \<open>Both methods are bound with \<open>.def\<close>, none with \<open>.def_static\<close>.\<close>

lemma methods_bound_by_def:
  "find_class cmanta cn = Some c \<Longrightarrow> map mkind (methods c) = [by_def, by_def]"
  by (auto simp add: find_class_cmanta split: if_splits)

section \<open>Facts about any module\<close>

lemma destructed_call:
  "call sdk m cn mn args w = Some (r, w') \<Longrightarrow> destructed w' = destructed w"
  by (auto simp add: call_def split: option.splits prod.splits)

lemma destructed_construct: "destructed (snd (construct sdk m cn args w)) = destructed w"
  by (simp add: construct_def split: option.splits prod.splits)

text \<open>
  The deleter matters: under the default holder a release does run the destructor.
\<close>

lemma default_delete_release_destructs:
  "find_class m cn = Some c \<Longrightarrow> holder c = unique_ptr default_delete \<Longrightarrow>
   destructed (release m cn p w) = destructed w @ [p]"
  by (simp add: release_def)

section \<open>Facts about \<open>cmanta\<close>\<close>

lemma release_cmanta: "release cmanta cn p w = w"
  by (simp add: release_def holder_cmanta split: option.splits)

lemma destructed_step_cmanta: "destructed (step sdk cmanta x w) = destructed w"
proof (cases x)
  case (Call cn mn args)
  then show ?thesis
    by (auto simp add: destructed_call split: option.splits)
next
  case (Construct cn args)
  then show ?thesis by (simp add: destructed_construct)
next
  case (Release cn p)
  then show ?thesis by (simp add: release_cmanta)
qed

section \<open>The claims\<close>

text \<open>
  C2. The holder of \<open>VimbaSystem\<close> is a \<open>unique_ptr\<close> whose deleter is \<open>nodelete\<close>, and
  no sequence of calls, instantiation attempts and releases of caller-side references
  makes the binding run a destructor: the list of destructed objects after the
  sequence is the list before it.
\<close>

theorem singleton_never_destructed:
  "map_option holder (find_class cmanta ''VimbaSystem'') = Some (unique_ptr nodelete) \<and>
   destructed (run sdk cmanta ops w) = destructed w"
proof
  show "map_option holder (find_class cmanta ''VimbaSystem'') = Some (unique_ptr nodelete)"
    by (simp add: find_class_cmanta)
  show "destructed (run sdk cmanta ops w) = destructed w"
    by (induction ops arbitrary: w) (simp_all add: destructed_step_cmanta)
qed

text \<open>
  C4. The module is named \<open>cmanta\<close>; what it exports is the class \<open>VimbaSystem\<close> with
  the two methods \<open>GetInstance\<close> and \<open>GetCameras\<close> and nothing else (no module-level
  function, no constructor, no property, no implicit conversion); a name is bound
  exactly when it is one of the two, and then to the SDK member of that name.
\<close>

theorem cmanta_exports:
  "modname cmanta = ''cmanta'' \<and>
   exports cmanta = [''VimbaSystem'', ''VimbaSystem.GetInstance'', ''VimbaSystem.GetCameras''] \<and>
   implicit_conversions cmanta = [] \<and>
   (bound cmanta cn mn = Some f) =
     (cn = ''VimbaSystem'' \<and>
      (mn = ''GetInstance'' \<and> f = VimbaSystem_GetInstance \<or>
       mn = ''GetCameras'' \<and> f = VimbaSystem_GetCameras))"
proof -
  have "modname cmanta = ''cmanta''" "implicit_conversions cmanta = []"
    by (simp_all add: cmanta_unfolded)
  moreover have "exports cmanta =
      [''VimbaSystem'', ''VimbaSystem.GetInstance'', ''VimbaSystem.GetCameras'']"
    by (simp add: exports_def class_exports_def cmanta_unfolded)
  moreover have "(bound cmanta cn mn = Some f) =
     (cn = ''VimbaSystem'' \<and>
      (mn = ''GetInstance'' \<and> f = VimbaSystem_GetInstance \<or>
       mn = ''GetCameras'' \<and> f = VimbaSystem_GetCameras))"
    by (auto simp add: bound_cmanta)
  ultimately show ?thesis by simp
qed

text \<open>
  C8. The class \<open>VimbaSystem\<close> binds no constructor, so every attempt to instantiate it,
  with any arguments in any state, fails and changes nothing; of the members the class
  does bind, the only one through which a caller can come by a system object is
  \<open>GetInstance\<close>.
\<close>

theorem VimbaSystem_has_no_constructor:
  "map_option inits (find_class cmanta ''VimbaSystem'') = Some [] \<and>
   construct sdk cmanta ''VimbaSystem'' args w = (Inl No_constructor_defined, w) \<and>
   map_option instance_sources (find_class cmanta ''VimbaSystem'') = Some [''GetInstance'']"
  by (simp add: construct_def find_class_cmanta instance_sources_def)

text \<open>
  C10. \<open>VimbaSystem\<close> is the only type the module registers: a C++ type has a
  representation in \<open>cmanta\<close> exactly when it is \<open>VimbaSystem\<close>. In particular the SDK's
  camera, camera-pointer and camera-list types have none, and neither an implicit
  conversion nor the framework's container conversions (\<open>pybind11/stl.h\<close>) are brought
  in.
\<close>

theorem only_VimbaSystem_registered:
  "map cpp_type (classes cmanta) = [''VimbaSystem''] \<and>
   registered cmanta T = (T = ''VimbaSystem'') \<and>
   \<not> registered cmanta ''Camera'' \<and>
   \<not> registered cmanta ''CameraPtr'' \<and>
   \<not> registered cmanta ''CameraPtrVector'' \<and>
   implicit_conversions cmanta = [] \<and>
   ''pybind11/stl.h'' \<notin> set cmanta_includes"
  by (auto simp add: registered_def cmanta_unfolded cmanta_includes_def)

end
